theory Spec2Isabelle
  imports Main
begin

section \<open>Python strings\<close>

text \<open>
  Strings are lists of characters. The string methods the service uses are modelled on
  ASCII text: \<open>lower\<close> and \<open>upper\<close> change the 26 Latin letters and leave every other
  character alone, \<open>strip\<close> removes the ASCII characters for which Python's
  \<open>str.isspace\<close> holds, and \<open>w in s\<close> is the contiguous-substring test.
\<close>

definition ascii_uppercase :: string where
  "ascii_uppercase = ''ABCDEFGHIJKLMNOPQRSTUVWXYZ''"

definition ascii_lowercase :: string where
  "ascii_lowercase = ''abcdefghijklmnopqrstuvwxyz''"

definition lower_char :: "char \<Rightarrow> char" where
  "lower_char c = (case map_of (zip ascii_uppercase ascii_lowercase) c of Some d \<Rightarrow> d | None \<Rightarrow> c)"

definition upper_char :: "char \<Rightarrow> char" where
  "upper_char c = (case map_of (zip ascii_lowercase ascii_uppercase) c of Some d \<Rightarrow> d | None \<Rightarrow> c)"

definition lower :: "string \<Rightarrow> string" where
  "lower s = map lower_char s"

definition upper :: "string \<Rightarrow> string" where
  "upper s = map upper_char s"

definition py_whitespace :: "char list" where
  "py_whitespace =
     [CHR 0x09, CHR 0x0A, CHR 0x0B, CHR 0x0C, CHR 0x0D, CHR 0x1C, CHR 0x1D, CHR 0x1E, CHR 0x1F, CHR 0x20]"

definition isspace :: "char \<Rightarrow> bool" where
  "isspace c = (c \<in> set py_whitespace)"

definition strip :: "string \<Rightarrow> string" where
  "strip s = rev (dropWhile isspace (rev (dropWhile isspace s)))"

fun startswith :: "string \<Rightarrow> string \<Rightarrow> bool" where
  "startswith s [] = True"
| "startswith [] (c # w) = False"
| "startswith (d # s) (c # w) = (d = c \<and> startswith s w)"

text \<open>\<open>py_in w s\<close> is Python's \<open>w in s\<close> on strings.\<close>

fun py_in :: "string \<Rightarrow> string \<Rightarrow> bool" where
  "py_in w [] = (w = [])"
| "py_in w (c # s) = (startswith (c # s) w \<or> py_in w s)"

text \<open>\<open>any(w in text for w in words)\<close>.\<close>

definition any_in :: "string list \<Rightarrow> string \<Rightarrow> bool" where
  "any_in ws s = list_ex (\<lambda>w. py_in w s) ws"

text \<open>\<open>sep.join(parts)\<close>.\<close>

fun join :: "string \<Rightarrow> string list \<Rightarrow> string" where
  "join sep [] = []"
| "join sep [p] = p"
| "join sep (p # q # ps) = p @ sep @ join sep (q # ps)"

text \<open>\<open>str(n)\<close> for an integer: decimal digits, with a minus sign below zero.\<close>

definition digit_char :: "nat \<Rightarrow> char" where
  "digit_char d = ''0123456789'' ! d"

fun str_nat :: "nat \<Rightarrow> string" where
  "str_nat n = (if n < 10 then [digit_char n] else str_nat (n div 10) @ [digit_char (n mod 10)])"

definition str_int :: "int \<Rightarrow> string" where
  "str_int i = (if i < 0 then CHR ''-'' # str_nat (nat (- i)) else str_nat (nat i))"

section \<open>Dictionaries built from key/value lists\<close>

text \<open>
  A dict comprehension over a list stores the pairs from left to right, so a later pair
  with the same key replaces an earlier one. \<open>dict_get d k dflt\<close> is \<open>d.get(k, dflt)\<close>.
\<close>

definition dict_of :: "('k \<times> 'v) list \<Rightarrow> ('k \<rightharpoonup> 'v)" where
  "dict_of kvs = map_of (rev kvs)"

definition dict_get :: "('k \<rightharpoonup> 'v) \<Rightarrow> 'k \<Rightarrow> 'v \<Rightarrow> 'v" where
  "dict_get d k dflt = (case d k of None \<Rightarrow> dflt | Some v \<Rightarrow> v)"

section \<open>Configuration (config.py)\<close>

text \<open>
  A team member is a dict with \<open>user_id\<close> and \<open>name\<close>; the L1 members also carry
  \<open>max_tickets\<close>, the L2 members do not (\<open>None\<close> is the absent key).
\<close>

record member =
  user_id :: int
  name :: string
  max_tickets :: "int option"

record config =
  REDMINE_BASE_URL :: string
  TEST_MODE :: bool
  BUSINESS_START :: int
  BUSINESS_END :: int
  L1_MEMBERS :: "member list"
  L2_MEMBERS :: "member list"
  CRITICAL_ENVIRONMENTS :: "string list"

definition l1 :: "int \<Rightarrow> string \<Rightarrow> member" where
  "l1 u n = \<lparr>user_id = u, name = n, max_tickets = Some 5\<rparr>"

definition l2 :: "int \<Rightarrow> string \<Rightarrow> member" where
  "l2 u n = \<lparr>user_id = u, name = n, max_tickets = None\<rparr>"

text \<open>The class \<open>Config\<close> with the defaults of every environment variable.\<close>

definition Config :: config where
  "Config = \<lparr>
     REDMINE_BASE_URL = ''https://techsupport.6dtech.co.in'',
     TEST_MODE = False,
     BUSINESS_START = 9,
     BUSINESS_END = 21,
     L1_MEMBERS =
       [l1 1239 ''Shashikiran Umakanth'', l1 1330 ''Jon Joseph'', l1 1329 ''Lakshmi A B'',
        l1 1328 ''Musab Acharath'', l1 1327 ''Afsana ashraf'', l1 1155 ''Sreehari Padmakumar'',
        l1 1795 ''Joel Mathew''],
     L2_MEMBERS =
       [l2 21 ''Arun Ramdas'', l2 155 ''Manoja Ningaraja'', l2 11 ''Jerish Vijay'',
        l2 10 ''Angel Varghese''],
     CRITICAL_ENVIRONMENTS = [''prod'', ''production'', ''live'']\<rparr>"

section \<open>Tickets\<close>

text \<open>
  A ticket is the issue dict of the tracker: \<open>id\<close>, \<open>subject\<close>, \<open>priority\<close> with its
  \<open>name\<close> and \<open>id\<close>, an optional \<open>description\<close> and the list of custom fields (the empty
  list when the key is absent, which is what \<open>ticket.get('custom_fields', [])\<close> reads).
  A custom field has a \<open>name\<close> and an optional \<open>value\<close>. The fields hold text; a JSON
  \<open>null\<close> in place of a text is outside this ticket type.
\<close>

record custom_field =
  cf_name :: string
  cf_value :: "string option"

record ticket =
  tid :: int
  subject :: string
  description :: "string option"
  priority_name :: string
  priority_id :: int
  custom_fields :: "custom_field list"

text \<open>\<open>{cf['name']: cf.get('value', '') for cf in ticket.get('custom_fields', [])}\<close>\<close>

definition custom_field_dict :: "ticket \<Rightarrow> (string \<rightharpoonup> string)" where
  "custom_field_dict t =
     dict_of (map (\<lambda>cf. (cf_name cf, case cf_value cf of None \<Rightarrow> [] | Some v \<Rightarrow> v)) (custom_fields t))"

section \<open>Priority arbitration\<close>

definition environment_of :: "ticket \<Rightarrow> string" where
  "environment_of t = strip (lower (dict_get (custom_field_dict t) ''Deployment Environment Tags'' []))"

definition PRIORITY_IDS :: "string \<rightharpoonup> int" where
  "PRIORITY_IDS = dict_of
     [(''P1(Critical)'', 4), (''P2(High)'', 5), (''P3(Medium)'', 3), (''P4(Low)'', 2), (''P5(Trivial)'', 1)]"

text \<open>\<open>any(env in environment for env in self.config.CRITICAL_ENVIRONMENTS)\<close>\<close>

definition is_production :: "config \<Rightarrow> string \<Rightarrow> bool" where
  "is_production cfg environment = any_in (CRITICAL_ENVIRONMENTS cfg) environment"

text \<open>
  Returns \<open>(original_priority, adjusted_priority, environment, was_downgraded,
  new_priority_id)\<close>.
\<close>

definition analyze_priority_and_environment ::
  "config \<Rightarrow> ticket \<Rightarrow> string \<times> string \<times> string \<times> bool \<times> int" where
  "analyze_priority_and_environment cfg t =
     (let original_priority = priority_name t;
          original_priority_id = priority_id t;
          environment = environment_of t
      in if original_priority = ''P1(Critical)'' then
           (if \<not> is_production cfg environment
            then (original_priority, ''P2(High)'', environment, True, dict_get PRIORITY_IDS ''P2(High)'' 0)
            else (original_priority, original_priority, environment, False, original_priority_id))
         else (original_priority, original_priority, environment, False, original_priority_id))"

text \<open>The components of the result.\<close>

definition adjusted_priority :: "config \<Rightarrow> ticket \<Rightarrow> string" where
  "adjusted_priority cfg t = fst (snd (analyze_priority_and_environment cfg t))"

definition was_downgraded :: "config \<Rightarrow> ticket \<Rightarrow> bool" where
  "was_downgraded cfg t = fst (snd (snd (snd (analyze_priority_and_environment cfg t))))"

definition new_priority_id :: "config \<Rightarrow> ticket \<Rightarrow> int" where
  "new_priority_id cfg t = snd (snd (snd (snd (analyze_priority_and_environment cfg t))))"

section \<open>Exceptions and dynamically typed values\<close>

text \<open>
  The exceptions that occur. \<open>str_exn e\<close> is \<open>str(e)\<close>: for a \<open>KeyError\<close> it is the
  \<open>repr\<close> of the missing key. A \<open>ValueError\<close> is raised only by \<open>min\<close> on an empty
  list; \<open>Exception m\<close> stands for every other exception, with its message.
\<close>

datatype exn =
    KeyError string
  | IndexError
  | ValueError
  | TypeError string
  | Timeout
  | JSONDecodeError
  | Exception string

fun str_exn :: "exn \<Rightarrow> string" where
  "str_exn (KeyError k) = [CHR 0x27] @ k @ [CHR 0x27]"
| "str_exn IndexError = ''list index out of range''"
| "str_exn ValueError = ''min() arg is an empty sequence''"
| "str_exn (TypeError m) = m"
| "str_exn Timeout = ''timeout''"
| "str_exn JSONDecodeError = ''Expecting value''"
| "str_exn (Exception m) = m"

text \<open>
  A workload is whatever the tracker's JSON holds under \<open>total_count\<close>: the model
  distinguishes \<open>null\<close>, an integer and a string. \<open>py_lt a b\<close> is \<open>a < b\<close>, which
  raises \<open>TypeError\<close> unless both are integers or both are strings.
\<close>

datatype json = JNull | JInt int | JStr string

fun type_name :: "json \<Rightarrow> string" where
  "type_name JNull = ''NoneType''"
| "type_name (JInt i) = ''int''"
| "type_name (JStr s) = ''str''"

fun str_lt :: "string \<Rightarrow> string \<Rightarrow> bool" where
  "str_lt [] [] = False"
| "str_lt [] (d # t) = True"
| "str_lt (c # s) [] = False"
| "str_lt (c # s) (d # t) =
     (if (of_char c :: nat) < of_char d then True
      else if (of_char d :: nat) < of_char c then False
      else str_lt s t)"

fun py_lt :: "json \<Rightarrow> json \<Rightarrow> exn + bool" where
  "py_lt (JInt a) (JInt b) = Inr (a < b)"
| "py_lt (JStr a) (JStr b) = Inr (str_lt a b)"
| "py_lt a b =
     Inl (TypeError ([CHR 0x27] @ ''<'' @ [CHR 0x27] @ '' not supported between instances of ''
            @ [CHR 0x27] @ type_name a @ [CHR 0x27] @ '' and '' @ [CHR 0x27] @ type_name b @ [CHR 0x27]))"

text \<open>\<open>str(v)\<close> inside an f-string.\<close>

fun str_json :: "json \<Rightarrow> string" where
  "str_json JNull = ''None''"
| "str_json (JInt i) = str_int i"
| "str_json (JStr s) = s"

section \<open>The services behind the HTTP calls\<close>

text \<open>
  Every HTTP call is recorded, in order, in the history of the run. What a service
  answers may depend on everything that was sent before, so a world gives each reply as
  a function of the history at the time of the call. A reply is an exception raised by
  the transport, or a status code with the decoded JSON body (\<open>None\<close> when the body is
  not JSON, where \<open>response.json()\<close> raises).
\<close>

datatype 'a reply = Raises exn | Http int "'a option"

text \<open>
  The part of an issue that the workload strategies read: the \<open>status\<close> dict with its
  \<open>id\<close> and \<open>name\<close>, each of which may be absent.
\<close>

record issue_status =
  status_id :: "int option"
  status_name :: "string option"

record issues_page =
  total_count :: "json option"
  issues :: "issue_status option list option"

text \<open>What the prompt of the generation call is built from.\<close>

record prompt =
  p_id :: int
  p_subject :: string
  p_description :: string
  p_priority :: string
  p_environment :: string
  p_project :: string

datatype request =
    GET_new_issues
  | GET_workload nat int
  | POST_generate prompt
  | PUT_priority int int string
  | PUT_assignment int int string

type_synonym history = "request list"

record world =
  reply_new_issues :: "history \<Rightarrow> ticket list option reply"
  reply_workload :: "history \<Rightarrow> nat \<Rightarrow> int \<Rightarrow> issues_page reply"
  reply_generate :: "history \<Rightarrow> prompt \<Rightarrow> string option reply"
  reply_put :: "history \<Rightarrow> request \<Rightarrow> unit reply"
  local_hour :: "history \<Rightarrow> exn + int"

section \<open>The workload probe\<close>

text \<open>
  The three strategies. Each sends one request and raises unless the status is 200
  and the body is JSON. The first returns the \<open>total_count\<close> of the page as it is (0
  when the key is absent); the second counts the issues whose status id is 2; the third
  counts those whose lowercased status name is \<open>in progress\<close>.
\<close>

definition http_200 :: "'a reply \<Rightarrow> exn + 'a" where
  "http_200 r =
     (case r of
        Raises e \<Rightarrow> Inl e
      | Http sc body \<Rightarrow>
          if sc = 200 then (case body of None \<Rightarrow> Inl JSONDecodeError | Some d \<Rightarrow> Inr d)
          else Inl (Exception (''HTTP '' @ str_int sc)))"

definition issues_or_empty :: "issues_page \<Rightarrow> issue_status option list" where
  "issues_or_empty d = (case issues d of None \<Rightarrow> [] | Some xs \<Rightarrow> xs)"

definition status_id_is_2 :: "issue_status option \<Rightarrow> bool" where
  "status_id_is_2 i = (case i of None \<Rightarrow> False | Some st \<Rightarrow> status_id st = Some 2)"

definition status_name_in_progress :: "issue_status option \<Rightarrow> bool" where
  "status_name_in_progress i =
     (case i of
        None \<Rightarrow> False
      | Some st \<Rightarrow> lower (case status_name st of None \<Rightarrow> [] | Some n \<Rightarrow> n) = ''in progress'')"

definition get_workload_method_1 :: "world \<Rightarrow> int \<Rightarrow> history \<Rightarrow> (exn + json) \<times> history" where
  "get_workload_method_1 W uid h =
     (case http_200 (reply_workload W h 1 uid) of
        Inl e \<Rightarrow> Inl e
      | Inr d \<Rightarrow> Inr (case total_count d of None \<Rightarrow> JInt 0 | Some v \<Rightarrow> v),
      h @ [GET_workload 1 uid])"

definition get_workload_method_2 :: "world \<Rightarrow> int \<Rightarrow> history \<Rightarrow> (exn + json) \<times> history" where
  "get_workload_method_2 W uid h =
     (case http_200 (reply_workload W h 2 uid) of
        Inl e \<Rightarrow> Inl e
      | Inr d \<Rightarrow> Inr (JInt (int (length (filter status_id_is_2 (issues_or_empty d))))),
      h @ [GET_workload 2 uid])"

definition get_workload_method_3 :: "world \<Rightarrow> int \<Rightarrow> history \<Rightarrow> (exn + json) \<times> history" where
  "get_workload_method_3 W uid h =
     (case http_200 (reply_workload W h 3 uid) of
        Inl e \<Rightarrow> Inl e
      | Inr d \<Rightarrow> Inr (JInt (int (length (filter status_name_in_progress (issues_or_empty d))))),
      h @ [GET_workload 3 uid])"

definition methods :: "(world \<Rightarrow> int \<Rightarrow> history \<Rightarrow> (exn + json) \<times> history) list" where
  "methods = [get_workload_method_1, get_workload_method_2, get_workload_method_3]"

text \<open>
  The loop over the strategies: the first one that returns a value other than \<open>None\<close>
  ends the probe; one that raises or returns \<open>None\<close> is passed over; after the last, 999.
\<close>

fun try_methods ::
  "(world \<Rightarrow> int \<Rightarrow> history \<Rightarrow> (exn + json) \<times> history) list \<Rightarrow> world \<Rightarrow> int \<Rightarrow> history \<Rightarrow> json \<times> history"
where
  "try_methods [] W uid h = (JInt 999, h)"
| "try_methods (m # ms) W uid h =
     (case m W uid h of
        (Inr workload, h1) \<Rightarrow> if workload \<noteq> JNull then (workload, h1) else try_methods ms W uid h1
      | (Inl e, h1) \<Rightarrow> try_methods ms W uid h1)"

definition test_workloads :: "int \<rightharpoonup> int" where
  "test_workloads = dict_of
     [(1239, 1), (1330, 3), (1329, 0), (1328, 4), (1327, 2),
      (1155, 1), (1795, 3), (21, 5), (155, 3), (11, 2), (10, 4)]"

definition get_user_workload :: "world \<Rightarrow> config \<Rightarrow> int \<Rightarrow> history \<Rightarrow> json \<times> history" where
  "get_user_workload W cfg uid h =
     (if TEST_MODE cfg then (JInt (dict_get test_workloads uid 0), h)
      else try_methods methods W uid h)"

section \<open>Routing\<close>

text \<open>
  \<open>min(members, key=lambda m: self.get_user_workload(m['user_id']))\<close>: the key of every
  member is probed once, in list order; a member replaces the best so far only when its
  key is strictly smaller; an empty list raises \<open>ValueError\<close>, and a comparison between
  keys of different types raises \<open>TypeError\<close>.
\<close>

fun min_scan ::
  "world \<Rightarrow> config \<Rightarrow> member \<Rightarrow> json \<Rightarrow> member list \<Rightarrow> history \<Rightarrow> (exn + member) \<times> history"
where
  "min_scan W cfg best best_key [] h = (Inr best, h)"
| "min_scan W cfg best best_key (m # ms) h =
     (case get_user_workload W cfg (user_id m) h of
        (k, h1) \<Rightarrow>
          (case py_lt k best_key of
             Inl e \<Rightarrow> (Inl e, h1)
           | Inr lt \<Rightarrow> if lt then min_scan W cfg m k ms h1 else min_scan W cfg best best_key ms h1))"

definition min_by_workload ::
  "world \<Rightarrow> config \<Rightarrow> member list \<Rightarrow> history \<Rightarrow> (exn + member) \<times> history" where
  "min_by_workload W cfg ms h =
     (case ms of
        [] \<Rightarrow> (Inl ValueError, h)
      | m # rest \<Rightarrow> (case get_user_workload W cfg (user_id m) h of (k, h1) \<Rightarrow> min_scan W cfg m k rest h1))"

text \<open>
  The dict that routing returns: the member's own keys, and \<open>assignment_type\<close> and
  \<open>reason\<close> when the branch added them.
\<close>

record assignee = member +
  assignment_type :: "string option"
  reason :: "string option"

definition with_assignment :: "member \<Rightarrow> string \<Rightarrow> string \<Rightarrow> assignee" where
  "with_assignment m ty why =
     \<lparr>user_id = user_id m, name = name m, max_tickets = max_tickets m,
      assignment_type = Some ty, reason = Some why\<rparr>"

definition plain_member :: "member \<Rightarrow> assignee" where
  "plain_member m =
     \<lparr>user_id = user_id m, name = name m, max_tickets = max_tickets m,
      assignment_type = None, reason = None\<rparr>"

text \<open>\<open>self.config.L2_MEMBERS[0]\<close>\<close>

definition first_l2 :: "config \<Rightarrow> exn + assignee" where
  "first_l2 cfg = (case L2_MEMBERS cfg of [] \<Rightarrow> Inl IndexError | m # ms \<Rightarrow> Inr (plain_member m))"

text \<open>
  The \<open>try\<close> block shared by the two branches that route to L2: select the member
  with the least workload, probe that member again for the text of the reason, and add
  the two keys; on any exception, \<open>return self.config.L2_MEMBERS[0]\<close>.
\<close>

definition route_l2 ::
  "world \<Rightarrow> config \<Rightarrow> string \<Rightarrow> (json \<Rightarrow> string) \<Rightarrow> history \<Rightarrow> (exn + assignee option) \<times> history" where
  "route_l2 W cfg ty why h =
     (case min_by_workload W cfg (L2_MEMBERS cfg) h of
        (Inr best_l2, h1) \<Rightarrow>
          (case get_user_workload W cfg (user_id best_l2) h1 of
             (workload, h2) \<Rightarrow> (Inr (Some (with_assignment best_l2 ty (why workload))), h2))
      | (Inl e, h1) \<Rightarrow> (map_sum id Some (first_l2 cfg), h1))"

definition reason_critical :: "json \<Rightarrow> string" where
  "reason_critical workload =
     ''P1 Critical PRODUCTION issue - L2 team (24/7) - Current load: '' @ str_json workload @ '' tickets''"

definition reason_overloaded :: "json \<Rightarrow> string" where
  "reason_overloaded workload =
     ''L1 team at capacity (5+ tickets each) - Escalated to L2 - Load: '' @ str_json workload"

text \<open>
  The loop over the L1 members: probe each, and keep \<open>(member, current_load)\<close> when
  \<open>current_load < member['max_tickets']\<close>. A member without \<open>max_tickets\<close> raises
  \<open>KeyError\<close>, a load that is not an integer raises \<open>TypeError\<close>; nothing catches them
  here.
\<close>

fun available_l1 ::
  "world \<Rightarrow> config \<Rightarrow> member list \<Rightarrow> (member \<times> json) list \<Rightarrow> history
     \<Rightarrow> (exn + (member \<times> json) list) \<times> history"
where
  "available_l1 W cfg [] acc h = (Inr acc, h)"
| "available_l1 W cfg (m # ms) acc h =
     (case get_user_workload W cfg (user_id m) h of
        (current_load, h1) \<Rightarrow>
          (case max_tickets m of
             None \<Rightarrow> (Inl (KeyError ''max_tickets''), h1)
           | Some cap \<Rightarrow>
               (case py_lt current_load (JInt cap) of
                  Inl e \<Rightarrow> (Inl e, h1)
                | Inr lt \<Rightarrow> available_l1 W cfg ms (if lt then acc @ [(m, current_load)] else acc) h1)))"

text \<open>\<open>min(available_l1, key=lambda x: x[1])\<close> on a list that is not empty.\<close>

fun min_pair :: "member \<times> json \<Rightarrow> (member \<times> json) list \<Rightarrow> exn + member \<times> json" where
  "min_pair best [] = Inr best"
| "min_pair best (x # xs) =
     (case py_lt (snd x) (snd best) of
        Inl e \<Rightarrow> Inl e
      | Inr lt \<Rightarrow> if lt then min_pair x xs else min_pair best xs)"

definition reason_l1 :: "json \<Rightarrow> int \<Rightarrow> string" where
  "reason_l1 current_load cap =
     ''P2-P5 during business hours - L1 team - Load: '' @ str_json current_load @ ''/'' @ str_int cap"

definition find_best_assignee ::
  "world \<Rightarrow> config \<Rightarrow> string \<Rightarrow> bool \<Rightarrow> history \<Rightarrow> (exn + assignee option) \<times> history" where
  "find_best_assignee W cfg adjusted is_business_hours h =
     (if adjusted = ''P1(Critical)'' then route_l2 W cfg ''L2_CRITICAL_PROD'' reason_critical h
      else if is_business_hours then
        (case available_l1 W cfg (L1_MEMBERS cfg) [] h of
           (Inl e, h1) \<Rightarrow> (Inl e, h1)
         | (Inr [], h1) \<Rightarrow> route_l2 W cfg ''L2_L1_OVERLOADED'' reason_overloaded h1
         | (Inr (x # xs), h1) \<Rightarrow>
             (case min_pair x xs of
                Inl e \<Rightarrow> (Inl e, h1)
              | Inr (best_l1, current_load) \<Rightarrow>
                  (case max_tickets best_l1 of
                     None \<Rightarrow> (Inl (KeyError ''max_tickets''), h1)
                   | Some cap \<Rightarrow>
                       (Inr (Some (with_assignment best_l1 ''L1_BUSINESS_HOURS'' (reason_l1 current_load cap))), h1))))
      else (Inr None, h))"

section \<open>The analysis generator\<close>

text \<open>
  The fallback: the category is the first of the keyword groups, in the order of the
  \<open>if\<close>/\<open>elif\<close> chain, one of whose words occurs in the lowercased subject, a space
  and the lowercased description; each category has its diagnostic commands.
\<close>

definition combined_text :: "ticket \<Rightarrow> string" where
  "combined_text t =
     lower (subject t) @ '' '' @ lower (case description t of None \<Rightarrow> [] | Some d \<Rightarrow> d)"

definition categorize :: "string \<Rightarrow> string \<times> string list" where
  "categorize text =
     (if any_in [''kubernetes'', ''k8s'', ''pod'', ''deployment'', ''namespace''] text then
        (''Kubernetes Infrastructure'',
         [''kubectl get pods -n <namespace>'',
          ''kubectl describe pod <pod_name> -n <namespace>'',
          ''kubectl logs <pod_name> -n <namespace> --tail=100''])
      else if any_in [''rabbitmq'', ''rabbit'', ''mq'', ''queue'', ''message''] text then
        (''RabbitMQ Message Broker'',
         [''kubectl logs <rabbitmq-pod-name> --tail=100'',
          ''kubectl exec -it <rabbitmq-pod> -- rabbitmqctl status'',
          ''kubectl exec -it <rabbitmq-pod> -- rabbitmqctl list_queues''])
      else if any_in [''redis'', ''cache'', ''session''] text then
        (''Redis Cache Service'',
         [''kubectl logs <redis-pod-name> --tail=100'',
          ''kubectl exec -it <redis-pod> -- redis-cli ping'',
          ''kubectl exec -it <redis-pod> -- redis-cli info memory''])
      else if any_in [''kafka'', ''streaming'', ''topic''] text then
        (''Kafka Streaming Platform'',
         [''kubectl logs <kafka-pod-name> --tail=100'',
          ''kubectl exec -it <kafka-pod> -- kafka-topics --list''])
      else if any_in [''elasticsearch'', ''elastic'', ''search''] text then
        (''Elasticsearch Search Engine'',
         [''kubectl logs <elasticsearch-pod-name> --tail=100'',
          ''kubectl exec -it <es-pod> -- curl -X GET '' @ [CHR 0x27] @ ''localhost:9200/_cluster/health'' @ [CHR 0x27]])
      else if any_in [''gitlab'', ''ci/cd'', ''pipeline'', ''build''] text then
        (''GitLab CI/CD Pipeline'',
         [''kubectl logs <gitlab-runner-pod> --tail=100'',
          ''kubectl get pods -l app=gitlab-runner''])
      else if any_in [''database'', ''db'', ''sql'', ''mysql'', ''postgres''] text then
        (''Database Service'',
         [''kubectl logs <database-pod-name> --tail=100'',
          ''kubectl describe pod <database-pod-name>''])
      else
        (''Infrastructure Service'',
         [''kubectl get pods --all-namespaces'',
          ''kubectl get events --sort-by=.metadata.creationTimestamp'']))"

definition fallback_template :: "string \<Rightarrow> string list \<Rightarrow> string \<Rightarrow> string" where
  "fallback_template category commands env_context =
     ''Thank you for contacting 6D DevOps Support regarding this '' @ lower category @ '' issue'' @ env_context
     @ ''.\<newline>\<newline>**Initial Assessment:**\<newline>This appears to be a '' @ category
     @ '' issue that requires additional information for proper diagnosis and resolution.\<newline>\<newline>''
     @ ''**To assist in resolving this issue efficiently, please provide the following information:**\<newline>\<newline>''
     @ ''1. **Error Details:** Please provide any error messages, logs, or specific symptoms observed.\<newline>''
     @ ''2. **Recent Changes:** Were there any recent deployments, configuration changes, or updates?\<newline>''
     @ ''3. **Issue Description: \<newline>\<newline>**Diagnostic Commands:**\<newline>''
     @ ''Please run the following commands and provide the output:\<newline>\<newline>```\<newline>''
     @ join ''\<newline>'' commands
     @ ''\<newline>```\<newline>\<newline>**Next Steps:**\<newline>''
     @ ''Once we receive this information, our team will perform a comprehensive analysis and provide specific resolution steps. ''
     @ ''This structured approach ensures efficient problem resolution.\<newline>\<newline>''
     @ ''*Note: This response was generated by our automated triage system. ''
     @ ''Our AI analysis service will provide enhanced diagnostics once connectivity is restored.*''"

definition generate_professional_fallback_analysis :: "ticket \<Rightarrow> string \<Rightarrow> string \<Rightarrow> string" where
  "generate_professional_fallback_analysis t environment priority =
     (case categorize (combined_text t) of
        (category, commands) \<Rightarrow>
          fallback_template category commands
            (if environment \<noteq> [] then '' in the '' @ upper environment @ '' environment'' else []))"

text \<open>The values that the f-string of the prompt inserts into its fixed text.\<close>

definition build_prompt :: "ticket \<Rightarrow> string \<Rightarrow> string \<Rightarrow> prompt" where
  "build_prompt t environment priority =
     \<lparr>p_id = tid t,
      p_subject = subject t,
      p_description = (case description t of None \<Rightarrow> ''No description provided'' | Some d \<Rightarrow> d),
      p_priority = priority,
      p_environment = (if environment \<noteq> [] then upper environment else ''Not specified''),
      p_project = dict_get (custom_field_dict t) ''Project Jira ID'' ''Unknown''\<rparr>"

text \<open>
  One request to the generation backend. Its answer is returned when the status is 200,
  the body is JSON and the \<open>response\<close> text (the empty string when the key is absent)
  is not empty after \<open>strip\<close>; in every other case, and on every exception, the
  fallback is returned.
\<close>

definition analyze_with_ollama ::
  "world \<Rightarrow> ticket \<Rightarrow> string \<Rightarrow> string \<Rightarrow> history \<Rightarrow> string \<times> history" where
  "analyze_with_ollama W t environment priority h =
     (let p = build_prompt t environment priority;
          fallback = generate_professional_fallback_analysis t environment priority
      in (case reply_generate W h p of
            Raises e \<Rightarrow> fallback
          | Http sc body \<Rightarrow>
              if sc = 200 then
                (case body of
                   None \<Rightarrow> fallback
                 | Some result \<Rightarrow>
                     (let analysis = strip (case result of None \<Rightarrow> [] | Some r \<Rightarrow> r)
                      in if analysis \<noteq> [] then analysis else fallback))
              else fallback,
          h @ [POST_generate p]))"

section \<open>Writing to the tracker\<close>

text \<open>\<open>response.raise_for_status()\<close> raises for the status codes 400 to 599.\<close>

definition raise_for_status :: "int \<Rightarrow> bool" where
  "raise_for_status sc = (400 \<le> sc \<and> sc < 600)"

definition put_ok :: "unit reply \<Rightarrow> bool" where
  "put_ok r = (case r of Raises e \<Rightarrow> False | Http sc body \<Rightarrow> \<not> raise_for_status sc)"

definition add_priority_downgrade_note ::
  "world \<Rightarrow> int \<Rightarrow> string \<Rightarrow> int \<Rightarrow> history \<Rightarrow> bool \<times> history" where
  "add_priority_downgrade_note W ticket_id environment new_id h =
     (let r = PUT_priority ticket_id new_id environment
      in (put_ok (reply_put W h r), h @ [r]))"

definition assign_ticket_in_redmine ::
  "world \<Rightarrow> int \<Rightarrow> assignee \<Rightarrow> string \<Rightarrow> history \<Rightarrow> bool \<times> history" where
  "assign_ticket_in_redmine W ticket_id a ai_analysis h =
     (let r = PUT_assignment ticket_id (user_id a) ai_analysis
      in (put_ok (reply_put W h r), h @ [r]))"

section \<open>The pipeline\<close>

text \<open>The two simulated tickets of the test mode.\<close>

definition test_ticket_1 :: ticket where
  "test_ticket_1 =
     \<lparr>tid = 99991,
      subject = ''Production database connection timeout'',
      description = Some ''Users unable to login - production database showing connection timeouts'',
      priority_name = ''P1(Critical)'',
      priority_id = 4,
      custom_fields =
        [\<lparr>cf_name = ''Project Jira ID'', cf_value = Some ''AUTH-SERVICE''\<rparr>,
         \<lparr>cf_name = ''Deployment Environment Tags'', cf_value = Some ''prod''\<rparr>]\<rparr>"

definition test_ticket_2 :: ticket where
  "test_ticket_2 =
     \<lparr>tid = 99992,
      subject = ''Development environment deployment failing'',
      description = Some ''CI/CD pipeline failing on dev environment - need assistance'',
      priority_name = ''P1(Critical)'',
      priority_id = 4,
      custom_fields =
        [\<lparr>cf_name = ''Project Jira ID'', cf_value = Some ''PAYMENT-SERVICE''\<rparr>,
         \<lparr>cf_name = ''Deployment Environment Tags'', cf_value = Some ''dev''\<rparr>]\<rparr>"

text \<open>
  Fetching the new tickets: every exception (transport, status 400 to 599, a body that
  is not JSON) is caught and the empty list is returned.
\<close>

definition get_new_devops_tickets :: "world \<Rightarrow> config \<Rightarrow> history \<Rightarrow> ticket list \<times> history" where
  "get_new_devops_tickets W cfg h =
     (if TEST_MODE cfg then ([test_ticket_1, test_ticket_2], h)
      else
        (case reply_new_issues W h of
           Raises e \<Rightarrow> []
         | Http sc body \<Rightarrow>
             if raise_for_status sc then []
             else (case body of
                     None \<Rightarrow> []
                   | Some data \<Rightarrow> (case data of None \<Rightarrow> [] | Some tickets \<Rightarrow> tickets)),
         h @ [GET_new_issues]))"

definition is_business_hours :: "world \<Rightarrow> config \<Rightarrow> history \<Rightarrow> exn + bool" where
  "is_business_hours W cfg h =
     (case local_hour W h of
        Inl e \<Rightarrow> Inl e
      | Inr current_hour \<Rightarrow> Inr (BUSINESS_START cfg \<le> current_hour \<and> current_hour < BUSINESS_END cfg))"

record ProcessedTicket =
  pt_ticket_id :: int
  pt_subject :: string
  pt_original_priority :: string
  pt_adjusted_priority :: string
  pt_environment :: string
  pt_priority_downgraded :: bool
  pt_assigned_to :: member
  pt_assignment_type :: string
  pt_reason :: string
  pt_ai_analysis :: string
  pt_ai_analysis_short :: string
  pt_redmine_url :: string
  pt_success :: bool
  pt_error :: "string option"

record AutomationResponse =
  success :: bool
  processed_tickets :: "ProcessedTicket list"
  total_processed :: nat
  priority_adjustments :: nat
  ollama_analyses :: nat
  errors :: "string list"
  timestamp :: string

text \<open>The local variables of \<open>process_tickets\<close> that the loop updates, and the history.\<close>

record run_state =
  st_processed :: "ProcessedTicket list"
  st_errors :: "string list"
  st_adjustments :: nat
  st_analyses :: nat
  st_history :: history

definition redmine_url :: "config \<Rightarrow> ticket \<Rightarrow> string" where
  "redmine_url cfg t = REDMINE_BASE_URL cfg @ ''/issues/'' @ str_int (tid t)"

definition pending_ticket :: "config \<Rightarrow> ticket \<Rightarrow> string \<Rightarrow> string \<Rightarrow> string \<Rightarrow> bool \<Rightarrow> ProcessedTicket" where
  "pending_ticket cfg t original adjusted environment downgraded =
     \<lparr>pt_ticket_id = tid t, pt_subject = subject t,
      pt_original_priority = original, pt_adjusted_priority = adjusted,
      pt_environment = environment, pt_priority_downgraded = downgraded,
      pt_assigned_to = \<lparr>user_id = 0, name = ''Pending'', max_tickets = None\<rparr>,
      pt_assignment_type = ''OUTSIDE_HOURS'',
      pt_reason = ''Non-critical ticket outside business hours (9AM-9PM IST)'',
      pt_ai_analysis = ''Waiting for business hours'',
      pt_ai_analysis_short = ''Pending business hours'',
      pt_redmine_url = redmine_url cfg t,
      pt_success = True,
      pt_error = None\<rparr>"

definition assigned_ticket ::
  "config \<Rightarrow> ticket \<Rightarrow> string \<Rightarrow> string \<Rightarrow> string \<Rightarrow> bool \<Rightarrow> assignee \<Rightarrow> string \<Rightarrow> string \<Rightarrow> string \<Rightarrow> bool
     \<Rightarrow> ProcessedTicket" where
  "assigned_ticket cfg t original adjusted environment downgraded a ty why ai_analysis assignment_success =
     \<lparr>pt_ticket_id = tid t, pt_subject = subject t,
      pt_original_priority = original, pt_adjusted_priority = adjusted,
      pt_environment = environment, pt_priority_downgraded = downgraded,
      pt_assigned_to = \<lparr>user_id = user_id a, name = name a, max_tickets = max_tickets a\<rparr>,
      pt_assignment_type = ty,
      pt_reason = why,
      pt_ai_analysis = ai_analysis,
      pt_ai_analysis_short = ''AI analysis with SPOC assignment'',
      pt_redmine_url = redmine_url cfg t,
      pt_success = assignment_success,
      pt_error = (if assignment_success then None else Some ''Failed to assign in Redmine'')\<rparr>"

text \<open>
  The body of the \<open>try\<close> inside the loop, for one ticket. It returns the exception that
  left the body, if any, and the state with every update made before that point.
\<close>

definition process_ticket ::
  "world \<Rightarrow> config \<Rightarrow> bool \<Rightarrow> ticket \<Rightarrow> run_state \<Rightarrow> exn option \<times> run_state" where
  "process_ticket W cfg business_hours t st =
     (case analyze_priority_and_environment cfg t of
        (original, adjusted, environment, downgraded, new_id) \<Rightarrow>
          (let st1 =
                 (if downgraded then
                    st\<lparr>st_adjustments := st_adjustments st + 1,
                       st_history := snd (add_priority_downgrade_note W (tid t) environment new_id (st_history st))\<rparr>
                  else st)
           in (case find_best_assignee W cfg adjusted business_hours (st_history st1) of
                 (Inl e, h2) \<Rightarrow> (Some e, st1\<lparr>st_history := h2\<rparr>)
               | (Inr None, h2) \<Rightarrow>
                   (None,
                    st1\<lparr>st_processed :=
                          st_processed st1 @ [pending_ticket cfg t original adjusted environment downgraded],
                        st_history := h2\<rparr>)
               | (Inr (Some a), h2) \<Rightarrow>
                   (case analyze_with_ollama W t environment adjusted h2 of
                      (ai_analysis, h3) \<Rightarrow>
                        (case assign_ticket_in_redmine W (tid t) a ai_analysis h3 of
                           (assignment_success, h4) \<Rightarrow>
                             (let st2 = st1\<lparr>st_analyses := st_analyses st1 + 1, st_history := h4\<rparr>
                              in (case assignment_type a of
                                    None \<Rightarrow> (Some (KeyError ''assignment_type''), st2)
                                  | Some ty \<Rightarrow>
                                      (case reason a of
                                         None \<Rightarrow> (Some (KeyError ''reason''), st2)
                                       | Some why \<Rightarrow>
                                           (None,
                                            st2\<lparr>st_processed :=
                                                  st_processed st2 @
                                                  [assigned_ticket cfg t original adjusted environment downgraded
                                                     a ty why ai_analysis assignment_success]\<rparr>)))))))))"

definition ticket_error :: "ticket \<Rightarrow> exn \<Rightarrow> string" where
  "ticket_error t e = ''Error processing ticket #'' @ str_int (tid t) @ '': '' @ str_exn e"

text \<open>The loop: the handler of the inner \<open>try\<close> appends the error and goes on.\<close>

fun process_loop :: "world \<Rightarrow> config \<Rightarrow> bool \<Rightarrow> ticket list \<Rightarrow> run_state \<Rightarrow> run_state" where
  "process_loop W cfg business_hours [] st = st"
| "process_loop W cfg business_hours (t # ts) st =
     (case process_ticket W cfg business_hours t st of
        (None, st1) \<Rightarrow> process_loop W cfg business_hours ts st1
      | (Some e, st1) \<Rightarrow>
          process_loop W cfg business_hours ts (st1\<lparr>st_errors := st_errors st1 @ [ticket_error t e]\<rparr>))"

text \<open>The state when the loop starts: empty lists, both counters 0.\<close>

definition start_state :: "history \<Rightarrow> run_state" where
  "start_state h =
     \<lparr>st_processed = [], st_errors = [], st_adjustments = 0, st_analyses = 0, st_history = h\<rparr>"

text \<open>
  \<open>process_tickets\<close>, with the start time as it is printed by \<open>isoformat\<close> and the
  history before the run. The outer handler is reached when the check of the business
  hours raises; nothing else between the two \<open>try\<close> levels raises.
\<close>

definition process_tickets ::
  "world \<Rightarrow> config \<Rightarrow> string \<Rightarrow> history \<Rightarrow> AutomationResponse \<times> history" where
  "process_tickets W cfg start_time h =
     (case get_new_devops_tickets W cfg h of
        (tickets, h1) \<Rightarrow>
          if tickets = [] then
            (\<lparr>success = True, processed_tickets = [], total_processed = 0,
              priority_adjustments = 0, ollama_analyses = 0,
              errors = [''No new tickets found''], timestamp = start_time\<rparr>, h1)
          else
            (case is_business_hours W cfg h1 of
               Inl e \<Rightarrow>
                 (\<lparr>success = False, processed_tickets = [], total_processed = 0,
                   priority_adjustments = 0, ollama_analyses = 0,
                   errors = [''Critical error in process_tickets: '' @ str_exn e] @ [],
                   timestamp = start_time\<rparr>, h1)
             | Inr business_hours \<Rightarrow>
                 (let st = process_loop W cfg business_hours tickets (start_state h1)
                  in (\<lparr>success = True, processed_tickets = st_processed st,
                       total_processed = length (st_processed st),
                       priority_adjustments = st_adjustments st,
                       ollama_analyses = st_analyses st,
                       errors = st_errors st, timestamp = start_time\<rparr>,
                      st_history st))))"

section \<open>Example inputs\<close>

text \<open>A ticket with the given id, priority name and environment tag (\<open>None\<close>: no such custom field).\<close>

definition example_ticket :: "int \<Rightarrow> string \<Rightarrow> string option \<Rightarrow> ticket" where
  "example_ticket i p e =
     \<lparr>tid = i, subject = ''Service is down'', description = None, priority_name = p, priority_id = 3,
      custom_fields =
        (case e of None \<Rightarrow> [] | Some v \<Rightarrow> [\<lparr>cf_name = ''Deployment Environment Tags'', cf_value = Some v\<rparr>])\<rparr>"

text \<open>
  A world whose answers do not change during the run: the reply to the fetch, the reply
  to a workload request by strategy number and user, the reply of the generation
  backend, the reply to every write, and the local hour.
\<close>

definition steady_world ::
  "ticket list option reply \<Rightarrow> (nat \<Rightarrow> int \<Rightarrow> issues_page reply) \<Rightarrow> string option reply \<Rightarrow> unit reply
     \<Rightarrow> exn + int \<Rightarrow> world" where
  "steady_world fetch workload gen put hour =
     \<lparr>reply_new_issues = (\<lambda>h. fetch),
      reply_workload = (\<lambda>h i uid. workload i uid),
      reply_generate = (\<lambda>h p. gen),
      reply_put = (\<lambda>h r. put),
      local_hour = (\<lambda>h. hour)\<rparr>"

text \<open>A page that reports the given \<open>total_count\<close> and no issues.\<close>

definition count_page :: "json \<Rightarrow> issues_page reply" where
  "count_page v = Http 200 (Some \<lparr>total_count = Some v, issues = Some []\<rparr>)"

text \<open>A tracker that is unreachable: every request to it raises.\<close>

definition unreachable_world :: world where
  "unreachable_world =
     steady_world (Raises (Exception ''Connection refused'')) (\<lambda>i uid. Raises (Exception ''Connection refused''))
       (Raises Timeout) (Raises (Exception ''Connection refused'')) (Inr 10)"

section \<open>Predicates used in the properties\<close>

text \<open>
  The fetch of the new tickets fails: the transport raises, the status is one for which
  \<open>raise_for_status\<close> raises, or the body is not JSON.
\<close>

definition fetch_failed :: "ticket list option reply \<Rightarrow> bool" where
  "fetch_failed r = (case r of Raises e \<Rightarrow> True | Http sc body \<Rightarrow> raise_for_status sc \<or> body = None)"

text \<open>
  A strategy fails when it raises or returns \<open>None\<close>; otherwise it succeeds with the
  value it returns. A count is an integer that is not negative.
\<close>

definition failed :: "exn + json \<Rightarrow> bool" where
  "failed r = (case r of Inl e \<Rightarrow> True | Inr v \<Rightarrow> v = JNull)"

definition returned :: "exn + json \<Rightarrow> json" where
  "returned r = (case r of Inl e \<Rightarrow> JNull | Inr v \<Rightarrow> v)"

definition is_count :: "json \<Rightarrow> bool" where
  "is_count v = (case v of JInt n \<Rightarrow> 0 \<le> n | _ \<Rightarrow> False)"

text \<open>
  A tracker that answers: the fetch returns the given tickets, every workload request for
  a user is answered with a page whose \<open>total_count\<close> is \<open>f user\<close>, every write
  succeeds, and the local hour is 10. The reply of the generation backend is given.
\<close>

definition tracker_world :: "ticket list \<Rightarrow> (int \<Rightarrow> json) \<Rightarrow> string option reply \<Rightarrow> world" where
  "tracker_world tickets f gen =
     steady_world (Http 200 (Some (Some tickets))) (\<lambda>i uid. count_page (f uid)) gen
       (Http 200 (Some ())) (Inr 10)"





text \<open>
  The exceptions that the loop catches, ticket by ticket: \<open>None\<close> for a ticket whose
  body ran to its end. \<open>error_strings\<close> and \<open>recorded_ids\<close> read off the error messages
  and the ids of the recorded tickets that such a list of outcomes stands for.
\<close>

fun ticket_outcomes :: "world \<Rightarrow> config \<Rightarrow> bool \<Rightarrow> ticket list \<Rightarrow> run_state \<Rightarrow> exn option list" where
  "ticket_outcomes W cfg business_hours [] st = []"
| "ticket_outcomes W cfg business_hours (t # ts) st =
     (case process_ticket W cfg business_hours t st of
        (None, st1) \<Rightarrow> None # ticket_outcomes W cfg business_hours ts st1
      | (Some e, st1) \<Rightarrow>
          Some e # ticket_outcomes W cfg business_hours ts (st1\<lparr>st_errors := st_errors st1 @ [ticket_error t e]\<rparr>))"

fun error_strings :: "ticket list \<Rightarrow> exn option list \<Rightarrow> string list" where
  "error_strings (t # ts) (Some e # rs) = ticket_error t e # error_strings ts rs"
| "error_strings (t # ts) (None # rs) = error_strings ts rs"
| "error_strings ts rs = []"

fun recorded_ids :: "ticket list \<Rightarrow> exn option list \<Rightarrow> int list" where
  "recorded_ids (t # ts) (None # rs) = tid t # recorded_ids ts rs"
| "recorded_ids (t # ts) (Some e # rs) = recorded_ids ts rs"
| "recorded_ids ts rs = []"


section \<open>Properties\<close>

subsection \<open>Strings\<close>

declare str_nat.simps [simp del]

lemma startswith_iff: "startswith s w \<longleftrightarrow> (\<exists>q. s = w @ q)"
  by (induction s w rule: startswith.induct) auto

lemma py_in_iff: "py_in w s \<longleftrightarrow> (\<exists>p q. s = p @ w @ q)"
proof (induction s)
  case Nil
  then show ?case by auto
next
  case (Cons c s)
  show ?case
  proof
    assume "py_in w (c # s)"
    then consider "startswith (c # s) w" | "py_in w s" by auto
    then show "\<exists>p q. c # s = p @ w @ q"
    proof cases
      case 1
      then obtain q where "c # s = w @ q" by (auto simp: startswith_iff)
      then have "c # s = [] @ w @ q" by simp
      then show ?thesis by blast
    next
      case 2
      then obtain p q where "s = p @ w @ q" using Cons.IH by auto
      then have "c # s = (c # p) @ w @ q" by simp
      then show ?thesis by blast
    qed
  next
    assume "\<exists>p q. c # s = p @ w @ q"
    then obtain p q where pq: "c # s = p @ w @ q" by blast
    show "py_in w (c # s)"
    proof (cases p)
      case Nil
      with pq have "startswith (c # s) w" by (auto simp: startswith_iff)
      then show ?thesis by simp
    next
      case (Cons d p')
      with pq have "s = p' @ w @ q" by simp
      then have "py_in w s" using Cons.IH by blast
      then show ?thesis by simp
    qed
  qed
qed

subsection \<open>Priority arbitration\<close>

lemma is_production_iff:
  "is_production cfg env \<longleftrightarrow> (\<exists>a \<in> set (CRITICAL_ENVIRONMENTS cfg). \<exists>p q. env = p @ a @ q)"
  by (simp add: is_production_def any_in_def list_ex_iff py_in_iff)



lemmas string_ops =
  lower_def lower_char_def upper_def upper_char_def ascii_uppercase_def ascii_lowercase_def
  strip_def isspace_def py_whitespace_def

lemmas environment_eval =
  environment_of_def custom_field_dict_def dict_of_def dict_get_def string_ops




text \<open>
  Claim C9. The production test is a substring test: a \<open>P1(Critical)\<close> ticket whose
  normalized tag has an alias anywhere inside it, also inside a longer word, counts as
  production, keeps \<open>P1(Critical)\<close> and is not marked as downgraded. The tags
  \<open>nonprod\<close> and \<open>reproduction\<close> are production tags of the default configuration.
\<close>

theorem substring_match_is_production:
  "(priority_name t = ''P1(Critical)'' \<and> a \<in> set (CRITICAL_ENVIRONMENTS cfg) \<and> environment_of t = p @ a @ q
      \<longrightarrow> is_production cfg (environment_of t) \<and> adjusted_priority cfg t = ''P1(Critical)''
          \<and> \<not> was_downgraded cfg t)
   \<and> is_production Config ''nonprod'' \<and> is_production Config ''reproduction''"
proof -
  have "is_production cfg (environment_of t)"
    if "a \<in> set (CRITICAL_ENVIRONMENTS cfg)" "environment_of t = p @ a @ q"
    using that unfolding is_production_iff by blast
  moreover have "adjusted_priority cfg t = ''P1(Critical)'' \<and> \<not> was_downgraded cfg t"
    if "priority_name t = ''P1(Critical)''" "is_production cfg (environment_of t)"
    using that
    by (simp add: adjusted_priority_def was_downgraded_def analyze_priority_and_environment_def Let_def)
  moreover have "is_production Config ''nonprod''" "is_production Config ''reproduction''"
    by (simp_all add: is_production_def any_in_def Config_def)
  ultimately show ?thesis by blast
qed

theorem substring_match_is_production_witness:
  "environment_of (example_ticket 9 ''P1(Critical)'' (Some ''NonProd'')) = ''nonprod''
   \<and> is_production Config ''nonprod''
   \<and> adjusted_priority Config (example_ticket 9 ''P1(Critical)'' (Some ''NonProd'')) = ''P1(Critical)''
   \<and> \<not> was_downgraded Config (example_ticket 9 ''P1(Critical)'' (Some ''NonProd''))
   \<and> environment_of (example_ticket 10 ''P1(Critical)'' (Some '' reproduction '')) = ''reproduction''
   \<and> adjusted_priority Config (example_ticket 10 ''P1(Critical)'' (Some '' reproduction '')) = ''P1(Critical)''
   \<and> \<not> was_downgraded Config (example_ticket 10 ''P1(Critical)'' (Some '' reproduction ''))"
proof -
  let ?t = "example_ticket 9 ''P1(Critical)'' (Some ''NonProd'')"
  let ?u = "example_ticket 10 ''P1(Critical)'' (Some '' reproduction '')"
  have e1: "environment_of ?t = ''non'' @ ''prod'' @ []"
    by (simp add: example_ticket_def environment_eval)
  have e2: "environment_of ?u = ''re'' @ ''prod'' @ ''uction''"
    by (simp add: example_ticket_def environment_eval)
  have n: "priority_name ?t = ''P1(Critical)''" "priority_name ?u = ''P1(Critical)''"
    by (simp_all add: example_ticket_def)
  have a: "''prod'' \<in> set (CRITICAL_ENVIRONMENTS Config)" by (simp add: Config_def)
  show ?thesis
    using substring_match_is_production [of ?t "''prod''" Config "''non''" "[]"]
      substring_match_is_production [of ?u "''prod''" Config "''re''" "''uction''"]
      e1 e2 n a
    by simp
qed

subsection \<open>The pipeline: failed fetch and deferred tickets\<close>

lemma analyze_components:
  "analyze_priority_and_environment cfg t =
     (priority_name t, adjusted_priority cfg t, environment_of t, was_downgraded cfg t, new_priority_id cfg t)"
  by (simp add: adjusted_priority_def was_downgraded_def new_priority_id_def
      analyze_priority_and_environment_def Let_def)

lemma test_ticket_2_facts:
  "environment_of test_ticket_2 = ''dev''"
  "adjusted_priority Config test_ticket_2 = ''P2(High)''"
  "was_downgraded Config test_ticket_2"
  "new_priority_id Config test_ticket_2 = 5"
proof -
  show e: "environment_of test_ticket_2 = ''dev''"
    by (simp add: test_ticket_2_def environment_eval)
  have p: "\<not> is_production Config ''dev''"
    by (simp add: is_production_def any_in_def Config_def)
  have n: "priority_name test_ticket_2 = ''P1(Critical)''" by (simp add: test_ticket_2_def)
  have i: "dict_get PRIORITY_IDS ''P2(High)'' 0 = 5"
    by (simp add: PRIORITY_IDS_def dict_get_def dict_of_def)
  show "adjusted_priority Config test_ticket_2 = ''P2(High)''"
    "was_downgraded Config test_ticket_2"
    "new_priority_id Config test_ticket_2 = 5"
    using e p n i
    by (simp_all add: adjusted_priority_def was_downgraded_def new_priority_id_def
        analyze_priority_and_environment_def Let_def)
qed

lemma fetch_failed_empty:
  "\<not> TEST_MODE cfg \<Longrightarrow> fetch_failed (reply_new_issues W h)
     \<Longrightarrow> get_new_devops_tickets W cfg h = ([], h @ [GET_new_issues])"
  by (auto simp: get_new_devops_tickets_def fetch_failed_def split: reply.splits option.splits)

lemma unsuccessful_iff:
  "success (fst (process_tickets W cfg start_time h)) = False \<longleftrightarrow>
     fst (get_new_devops_tickets W cfg h) \<noteq> [] \<and>
     isl (is_business_hours W cfg (snd (get_new_devops_tickets W cfg h)))"
  by (cases "get_new_devops_tickets W cfg h")
     (auto simp: process_tickets_def Let_def split: sum.splits)

text \<open>
  Claim C7, as amended. Outside the test mode, when the fetch of the new tickets fails,
  \<open>get_new_devops_tickets\<close> has caught the error and returned the empty list, and the
  run returns the summary of an empty batch: no processed ticket, both counters 0, the
  single entry \<open>No new tickets found\<close> in the error list, and \<open>success = True\<close>. The
  fetch error is not in the summary.
\<close>

theorem fetch_failure_reported_as_empty:
  assumes "\<not> TEST_MODE cfg" and "fetch_failed (reply_new_issues W h)"
  shows "process_tickets W cfg start_time h =
           (\<lparr>success = True, processed_tickets = [], total_processed = 0,
             priority_adjustments = 0, ollama_analyses = 0,
             errors = [''No new tickets found''], timestamp = start_time\<rparr>,
            h @ [GET_new_issues])"
  using assms by (simp add: process_tickets_def fetch_failed_empty)

text \<open>
  With the tracker unreachable, the summary of the run is marked successful and carries
  \<open>No new tickets found\<close>: the claim C7 as it is stated does not hold.
\<close>

theorem fetch_failure_counterexample:
  "success (fst (process_tickets unreachable_world Config ''2025-01-01T00:00:00'' [])) = True
   \<and> errors (fst (process_tickets unreachable_world Config ''2025-01-01T00:00:00'' [])) = [''No new tickets found'']"
  by (simp add: process_tickets_def get_new_devops_tickets_def unreachable_world_def steady_world_def Config_def)

theorem fetch_failure_witness:
  "\<not> TEST_MODE Config \<and> fetch_failed (reply_new_issues unreachable_world [])
   \<and> process_tickets unreachable_world Config ''2025-01-01T00:00:00'' [] =
           (\<lparr>success = True, processed_tickets = [], total_processed = 0,
             priority_adjustments = 0, ollama_analyses = 0,
             errors = [''No new tickets found''], timestamp = ''2025-01-01T00:00:00''\<rparr>,
            [GET_new_issues])"
proof -
  have a: "\<not> TEST_MODE Config" by (simp add: Config_def)
  have b: "fetch_failed (reply_new_issues unreachable_world [])"
    by (simp add: fetch_failed_def unreachable_world_def steady_world_def)
  show ?thesis
    using fetch_failure_reported_as_empty [OF a b, of "''2025-01-01T00:00:00''"] a b by simp
qed

lemma find_best_assignee_deferred:
  "adjusted \<noteq> ''P1(Critical)'' \<Longrightarrow> find_best_assignee W cfg adjusted False h = (Inr None, h)"
  by (simp add: find_best_assignee_def)

lemma process_ticket_deferred:
  assumes "adjusted_priority cfg t \<noteq> ''P1(Critical)''"
  shows "process_ticket W cfg False t st =
     (None,
      st\<lparr>st_processed := st_processed st @
            [pending_ticket cfg t (priority_name t) (adjusted_priority cfg t) (environment_of t)
               (was_downgraded cfg t)],
         st_adjustments := st_adjustments st + (if was_downgraded cfg t then 1 else 0),
         st_history := st_history st @
            (if was_downgraded cfg t
             then [PUT_priority (tid t) (new_priority_id cfg t) (environment_of t)] else [])\<rparr>)"
  using assms
  by (simp add: process_ticket_def analyze_components find_best_assignee_deferred
      add_priority_downgrade_note_def Let_def)

text \<open>
  Claim C5. With an adjusted priority other than \<open>P1(Critical)\<close> and outside the business
  hours, routing returns \<open>None\<close> and leaves the history as it was, so no workload request
  is sent. The pipeline then records the ticket with the assignee \<open>Pending\<close> (user id 0)
  and the type \<open>OUTSIDE_HOURS\<close>, raises nothing, leaves the count of analyses and the
  error list unchanged, and sends no request but the priority update of a downgraded
  ticket: none to the generation backend.
\<close>

theorem deferred_outside_hours:
  "(adjusted \<noteq> ''P1(Critical)'' \<longrightarrow> find_best_assignee W cfg adjusted False h = (Inr None, h))
   \<and> (adjusted_priority cfg t \<noteq> ''P1(Critical)'' \<longrightarrow>
        (case process_ticket W cfg False t st of
           (raised, st') \<Rightarrow>
             raised = None
             \<and> st_processed st' = st_processed st @
                 [pending_ticket cfg t (priority_name t) (adjusted_priority cfg t) (environment_of t)
                    (was_downgraded cfg t)]
             \<and> pt_assigned_to (last (st_processed st')) = \<lparr>user_id = 0, name = ''Pending'', max_tickets = None\<rparr>
             \<and> pt_assignment_type (last (st_processed st')) = ''OUTSIDE_HOURS''
             \<and> st_analyses st' = st_analyses st
             \<and> st_errors st' = st_errors st
             \<and> st_history st' = st_history st @
                 (if was_downgraded cfg t
                  then [PUT_priority (tid t) (new_priority_id cfg t) (environment_of t)] else [])))"
  by (simp add: find_best_assignee_deferred process_ticket_deferred pending_ticket_def)

theorem deferred_outside_hours_witness:
  "find_best_assignee unreachable_world Config ''P2(High)'' False [] = (Inr None, [])
   \<and> fst (process_ticket unreachable_world Config False test_ticket_2 (start_state [])) = None
   \<and> map pt_ticket_id (st_processed (snd (process_ticket unreachable_world Config False test_ticket_2 (start_state [])))) = [99992]
   \<and> map (name \<circ> pt_assigned_to) (st_processed (snd (process_ticket unreachable_world Config False test_ticket_2 (start_state [])))) = [''Pending'']
   \<and> st_analyses (snd (process_ticket unreachable_world Config False test_ticket_2 (start_state []))) = 0
   \<and> st_history (snd (process_ticket unreachable_world Config False test_ticket_2 (start_state []))) =
        [PUT_priority 99992 5 ''dev'']"
proof -
  have a: "''P2(High)'' \<noteq> ''P1(Critical)''" by simp
  have b: "adjusted_priority Config test_ticket_2 \<noteq> ''P1(Critical)''"
    by (simp add: test_ticket_2_facts)
  have c: "tid test_ticket_2 = 99992" by (simp add: test_ticket_2_def)
  show ?thesis
    using deferred_outside_hours [of "''P2(High)''" unreachable_world Config "[]" test_ticket_2 "start_state []"]
      a b c
    by (simp add: case_prod_unfold test_ticket_2_facts start_state_def pending_ticket_def)
qed

subsection \<open>The workload probe\<close>

lemma method_history:
  "snd (get_workload_method_1 W uid h) = h @ [GET_workload 1 uid]"
  "snd (get_workload_method_2 W uid h) = h @ [GET_workload 2 uid]"
  "snd (get_workload_method_3 W uid h) = h @ [GET_workload 3 uid]"
  by (simp_all add: get_workload_method_1_def get_workload_method_2_def get_workload_method_3_def)

lemma try_methods_step:
  "try_methods (m # ms) W uid h =
     (if failed (fst (m W uid h)) then try_methods ms W uid (snd (m W uid h))
      else (returned (fst (m W uid h)), snd (m W uid h)))"
  by (cases "m W uid h") (auto simp: failed_def returned_def split: sum.splits)

lemma try_methods_three:
  "try_methods [get_workload_method_1, get_workload_method_2, get_workload_method_3] W uid h =
     (if \<not> failed (fst (get_workload_method_1 W uid h))
      then (returned (fst (get_workload_method_1 W uid h)), h @ [GET_workload 1 uid])
      else if \<not> failed (fst (get_workload_method_2 W uid (h @ [GET_workload 1 uid])))
      then (returned (fst (get_workload_method_2 W uid (h @ [GET_workload 1 uid]))),
            h @ [GET_workload 1 uid] @ [GET_workload 2 uid])
      else if \<not> failed (fst (get_workload_method_3 W uid (h @ [GET_workload 1 uid] @ [GET_workload 2 uid])))
      then (returned (fst (get_workload_method_3 W uid (h @ [GET_workload 1 uid] @ [GET_workload 2 uid]))),
            h @ [GET_workload 1 uid] @ [GET_workload 2 uid] @ [GET_workload 3 uid])
      else (JInt 999, h @ [GET_workload 1 uid] @ [GET_workload 2 uid] @ [GET_workload 3 uid]))"
  unfolding try_methods_step method_history try_methods.simps(1) by simp

lemma counted_is_count:
  "\<not> failed (fst (get_workload_method_2 W uid h)) \<Longrightarrow> is_count (returned (fst (get_workload_method_2 W uid h)))"
  "\<not> failed (fst (get_workload_method_3 W uid h)) \<Longrightarrow> is_count (returned (fst (get_workload_method_3 W uid h)))"
  by (auto simp: get_workload_method_2_def get_workload_method_3_def failed_def returned_def is_count_def
      split: sum.splits)

lemma not_failed_not_null: "\<not> failed r \<Longrightarrow> returned r \<noteq> JNull"
  by (auto simp: failed_def returned_def split: sum.splits)

lemmas world_eval = steady_world_def tracker_world_def unreachable_world_def count_page_def

lemmas method_eval =
  get_workload_method_1_def get_workload_method_2_def get_workload_method_3_def http_200_def
  issues_or_empty_def failed_def returned_def

text \<open>
  Claim C3, as amended. Outside the test mode the probe tries the three strategies in
  their order, each at the history its predecessors left. It returns the value of the
  first strategy that neither raises nor returns \<open>None\<close>, and sends no request of a
  later strategy; when all three fail it returns 999 after the three requests. It never
  returns \<open>None\<close>. It returns 999 exactly when all three fail or the first strategy
  that succeeds itself reports 999. The value is a count (an integer that is not
  negative) whenever the first strategy fails or reports a count: the second and the
  third strategy always report one.
\<close>

theorem workload_probe_first_success:
  assumes "\<not> TEST_MODE cfg"
  shows "(let r1 = fst (get_workload_method_1 W uid h); h1 = h @ [GET_workload 1 uid];
              r2 = fst (get_workload_method_2 W uid h1); h2 = h1 @ [GET_workload 2 uid];
              r3 = fst (get_workload_method_3 W uid h2); h3 = h2 @ [GET_workload 3 uid]
          in get_user_workload W cfg uid h =
               (if \<not> failed r1 then (returned r1, h1)
                else if \<not> failed r2 then (returned r2, h2)
                else if \<not> failed r3 then (returned r3, h3)
                else (JInt 999, h3))
             \<and> fst (get_user_workload W cfg uid h) \<noteq> JNull
             \<and> (fst (get_user_workload W cfg uid h) = JInt 999 \<longleftrightarrow>
                  (failed r1 \<and> failed r2 \<and> failed r3)
                  \<or> (\<not> failed r1 \<and> returned r1 = JInt 999)
                  \<or> (failed r1 \<and> \<not> failed r2 \<and> returned r2 = JInt 999)
                  \<or> (failed r1 \<and> failed r2 \<and> \<not> failed r3 \<and> returned r3 = JInt 999))
             \<and> ((failed r1 \<or> is_count (returned r1)) \<longrightarrow> is_count (fst (get_user_workload W cfg uid h))))"
proof -
  define r1 where "r1 = fst (get_workload_method_1 W uid h)"
  define h1 where "h1 = h @ [GET_workload 1 uid]"
  define r2 where "r2 = fst (get_workload_method_2 W uid h1)"
  define h2 where "h2 = h1 @ [GET_workload 2 uid]"
  define r3 where "r3 = fst (get_workload_method_3 W uid h2)"
  define h3 where "h3 = h2 @ [GET_workload 3 uid]"
  have eq: "get_user_workload W cfg uid h =
               (if \<not> failed r1 then (returned r1, h1)
                else if \<not> failed r2 then (returned r2, h2)
                else if \<not> failed r3 then (returned r3, h3)
                else (JInt 999, h3))"
    using assms unfolding get_user_workload_def methods_def try_methods_three
      r1_def r2_def r3_def h1_def h2_def h3_def by simp
  have c2: "\<not> failed r2 \<Longrightarrow> is_count (returned r2)" and c3: "\<not> failed r3 \<Longrightarrow> is_count (returned r3)"
    unfolding r2_def r3_def by (simp_all add: counted_is_count)
  have s: "is_count (JInt 999)" by (simp add: is_count_def)
  have a: "fst (get_user_workload W cfg uid h) \<noteq> JNull"
    unfolding eq using not_failed_not_null by auto
  have b: "fst (get_user_workload W cfg uid h) = JInt 999 \<longleftrightarrow>
                  (failed r1 \<and> failed r2 \<and> failed r3)
                  \<or> (\<not> failed r1 \<and> returned r1 = JInt 999)
                  \<or> (failed r1 \<and> \<not> failed r2 \<and> returned r2 = JInt 999)
                  \<or> (failed r1 \<and> failed r2 \<and> \<not> failed r3 \<and> returned r3 = JInt 999)"
    unfolding eq by auto
  have c: "(failed r1 \<or> is_count (returned r1)) \<longrightarrow> is_count (fst (get_user_workload W cfg uid h))"
    unfolding eq using c2 c3 s by auto
  show ?thesis
    unfolding Let_def
    using eq a b c
    unfolding r1_def r2_def r3_def h1_def h2_def h3_def
    by blast
qed

text \<open>
  A tracker that reports a \<open>total_count\<close> of 999 makes the probe return 999 although the
  first strategy succeeded: 999 does not imply that all strategies failed.
\<close>

theorem workload_probe_counterexample:
  "fst (get_user_workload (tracker_world [] (\<lambda>u. JInt 999) (Raises Timeout)) Config 21 []) = JInt 999
   \<and> \<not> failed (fst (get_workload_method_1 (tracker_world [] (\<lambda>u. JInt 999) (Raises Timeout)) 21 []))"
  by (simp add: get_user_workload_def methods_def Config_def world_eval method_eval)

theorem workload_probe_witness:
  "\<not> TEST_MODE Config
   \<and> get_user_workload unreachable_world Config 21 [] =
       (JInt 999, [GET_workload 1 21, GET_workload 2 21, GET_workload 3 21])
   \<and> get_user_workload (tracker_world [] (\<lambda>u. JInt 2) (Raises Timeout)) Config 21 [] =
       (JInt 2, [GET_workload 1 21])
   \<and> is_count (fst (get_user_workload (tracker_world [] (\<lambda>u. JInt 2) (Raises Timeout)) Config 21 []))"
proof -
  have t: "\<not> TEST_MODE Config" by (simp add: Config_def)
  have u: "failed (fst (get_workload_method_1 unreachable_world 21 h))"
    "failed (fst (get_workload_method_2 unreachable_world 21 h))"
    "failed (fst (get_workload_method_3 unreachable_world 21 h))" for h
    by (simp_all add: world_eval method_eval)
  have v: "\<not> failed (fst (get_workload_method_1 (tracker_world [] (\<lambda>u. JInt 2) (Raises Timeout)) 21 []))"
    "returned (fst (get_workload_method_1 (tracker_world [] (\<lambda>u. JInt 2) (Raises Timeout)) 21 [])) = JInt 2"
    by (simp_all add: world_eval method_eval)
  have w: "is_count (JInt 2)" by (simp add: is_count_def)
  show ?thesis
    using workload_probe_first_success [OF t, of unreachable_world 21 "[]"]
      workload_probe_first_success [OF t, of "tracker_world [] (\<lambda>u. JInt 2) (Raises Timeout)" 21 "[]"]
      t u v w
    by (simp add: Let_def)
qed

subsection \<open>The analysis generator\<close>










subsection \<open>The fallback of the critical path\<close>













end
